theory Spec2Isabelle
  imports Complex_Main
begin

section \<open>Time\<close>

text \<open>
  A Go \<open>time.Time\<close> is an instant with nanosecond resolution and a \<open>time.Duration\<close> is a
  count of nanoseconds.  Both are modelled as integers: an instant is its number of
  nanoseconds since the Unix epoch, so \<open>t.Add(d)\<close> is \<open>t + d\<close>, \<open>t.Before(u)\<close> is
  \<open>t < u\<close> and \<open>t.After(u)\<close> is \<open>t > u\<close>.  The durations used by the chunker are far
  below the 64-bit range (2000 days are about \<open>1.7 * 10^17\<close> nanoseconds).
\<close>

type_synonym time = int
type_synonym duration = int

definition Second :: duration where
  "Second = 1000000000"

definition Hour :: duration where
  "Hour = 3600 * Second"

text \<open>
  The instant that \<open>time.Parse("2006-01-02", s)\<close> yields for a calendar date: midnight UTC
  of that day.  The day number is the usual proleptic Gregorian count of days since
  1970-01-01.
\<close>

definition daysFromCivil :: "int \<Rightarrow> int \<Rightarrow> int \<Rightarrow> int" where
  "daysFromCivil y m d =
     (let y' = (if m \<le> 2 then y - 1 else y);
          era = y' div 400;
          yoe = y' - era * 400;
          doy = (153 * (if m > 2 then m - 3 else m + 9) + 2) div 5 + d - 1;
          doe = yoe * 365 + yoe div 4 - yoe div 100 + doy
      in era * 146097 + doe - 719468)"

definition dateUTC :: "int \<Rightarrow> int \<Rightarrow> int \<Rightarrow> time" where
  "dateUTC y m d = daysFromCivil y m d * 24 * Hour"


section \<open>Interval calendar and chunker (package kite)\<close>

definition IntradayMaxDays :: int where
  "IntradayMaxDays = 60"

definition DailyChunkDays :: int where
  "DailyChunkDays = 2000"

definition intervalMap :: "(string \<times> int) list" where
  "intervalMap =
     [(''minute'', 1),
      (''3minute'', 3),
      (''5minute'', 5),
      (''10minute'', 10),
      (''15minute'', 15),
      (''30minute'', 30),
      (''60minute'', 60),
      (''hour'', 60),
      (''day'', 1440)]"

definition parseIntervalMinutes :: "string \<Rightarrow> int" where
  "parseIntervalMinutes interval =
     (case map_of intervalMap interval of
        Some minutes \<Rightarrow> minutes
      | None \<Rightarrow> 1)"

definition IsDailyOrLarger :: "string \<Rightarrow> bool" where
  "IsDailyOrLarger interval = (parseIntervalMinutes interval \<ge> 1440)"

text \<open>The local \<open>chunkSize\<close> of \<open>GenerateDateChunks\<close>.\<close>

definition chunkSize :: "string \<Rightarrow> duration" where
  "chunkSize interval =
     (if IsDailyOrLarger interval then DailyChunkDays * 24 * Hour
      else IntradayMaxDays * 24 * Hour)"

text \<open>
  The \<open>for currentStart.Before(to)\<close> loop.  Each round emits one chunk and restarts one
  second after its end; the list is built front to back, which is the order in which the
  source appends.  The loop is given the interval token, from which the chunk size is
  read; it is positive for every token, which is why the loop ends.
\<close>

function GenerateDateChunks_loop :: "string \<Rightarrow> time \<Rightarrow> time \<Rightarrow> (time \<times> time) list" where
  "GenerateDateChunks_loop interval currentStart to =
     (if currentStart < to then
        (let currentEnd = currentStart + chunkSize interval;
             currentEnd = (if currentEnd > to then to else currentEnd)
         in (currentStart, currentEnd)
            # GenerateDateChunks_loop interval (currentEnd + Second) to)
      else [])"
  by pat_completeness auto
termination
proof (relation "measure (\<lambda>(interval, currentStart, to). nat (to - currentStart))")
  show "wf (measure (\<lambda>(interval, currentStart, to). nat (to - currentStart)))"
    by simp
next
  fix interval :: string and currentStart to x xa :: time
  assume "currentStart < to"
    and x: "x = currentStart + chunkSize interval"
    and xa: "xa = (if to < x then to else x)"
  moreover have "0 < chunkSize interval"
    by (simp add: chunkSize_def DailyChunkDays_def IntradayMaxDays_def Hour_def Second_def)
  ultimately show "((interval, xa + Second, to), interval, currentStart, to)
      \<in> measure (\<lambda>(interval, currentStart, to). nat (to - currentStart))"
    by (auto simp: Second_def)
qed

definition GenerateDateChunks :: "time \<Rightarrow> time \<Rightarrow> string \<Rightarrow> (time \<times> time) list" where
  "GenerateDateChunks from to interval = GenerateDateChunks_loop interval from to"


section \<open>Candles and the outside world\<close>

text \<open>
  A Go \<open>float64\<close> is either a finite number or one of the three special values.  No
  arithmetic is done on prices here; the distinction matters because \<open>encoding/json\<close>
  refuses to encode the special values.
\<close>

datatype float64 = Finite real | NaN | PosInf | NegInf

text \<open>The struct \<open>kiteconnect.HistoricalData\<close>.\<close>

record HistoricalData =
  Date :: time
  Open :: float64
  High :: float64
  Low :: float64
  Close :: float64
  Volume :: int
  OI :: int

text \<open>
  A Go \<open>error\<close> is represented by the fixed part of its message (the text before the
  wrapped cause), and a nil error by \<open>None\<close>.  Writing to the logger and printing to the
  terminal change nothing that the functions below read, and are left out.
\<close>

type_synonym error = string

text \<open>
  What a file holds is kept as the sequence of pieces that were written to it: the
  encoding of a candle array (one \<open>json.MarshalIndent\<close> output), some other valid JSON
  text, one CSV record, or other bytes.  A JSON text that is not the encoding of a candle
  array (say \<open>[1,2]\<close>) is kept with the candles that decoding it into a nil slice leaves
  there before the decoder reports the mismatch (for \<open>[1,2]\<close>, two zero candles).  A CSV
  field is kept with the value it was formatted from.
\<close>

datatype csv_field = FieldStr string | FieldTime time | FieldFloat float64 | FieldInt int

datatype segment =
    JSONArray "HistoricalData list"
  | JSONOther "HistoricalData list"
  | CSVRecord "csv_field list"
  | Bytes string

text \<open>
  One row of the table \<open>ohlcv(instrument, open, high, low, close, timestamp, volume)\<close>.
\<close>

type_synonym row = "string \<times> float64 \<times> float64 \<times> float64 \<times> float64 \<times> time \<times> int"

text \<open>
  A database as the \<open>database/sql\<close> handle sees it: its tables, which rows the engine
  accepts on \<open>INSERT\<close>, and whether a \<open>COMMIT\<close> goes through.
\<close>

record database =
  tables :: "string \<rightharpoonup> row list"
  accepts :: "row \<Rightarrow> bool"
  commits :: bool

text \<open>
  The part of the machine the stores act on.  A file path is the pair of its directory and
  its name, which is what \<open>filepath.Join(basePath, fileName)\<close> denotes.  \<open>protected\<close>
  are the paths at which no directory can be created; \<open>dbs\<close> maps a data source name
  to the database behind it, when one can be reached.
\<close>

record world =
  dirs :: "string set"
  protected :: "string set"
  files :: "string \<times> string \<rightharpoonup> segment list"
  csv_write_ok :: "csv_field list \<Rightarrow> bool"
  dbs :: "string \<rightharpoonup> database"

subsection \<open>Library calls the stores make\<close>

definition os_MkdirAll :: "world \<Rightarrow> string \<Rightarrow> error option \<times> world" where
  "os_MkdirAll w path =
     (if path \<in> dirs w then (None, w)
      else if path \<in> protected w then (Some ''mkdir: permission denied'', w)
      else (None, w\<lparr>dirs := insert path (dirs w)\<rparr>))"

definition os_ReadFile :: "world \<Rightarrow> string \<times> string \<Rightarrow> error + segment list" where
  "os_ReadFile w filePath =
     (case files w filePath of
        None \<Rightarrow> Inl ''open: no such file or directory''
      | Some data \<Rightarrow> Inr data)"

definition os_WriteFile :: "world \<Rightarrow> string \<times> string \<Rightarrow> segment list \<Rightarrow> error option \<times> world" where
  "os_WriteFile w filePath data =
     (if fst filePath \<in> dirs w
      then (None, w\<lparr>files := (files w)(filePath \<mapsto> data)\<rparr>)
      else (Some ''open: no such file or directory'', w))"

text \<open>\<open>os.Stat\<close>, reduced to whether it returns a nil error.\<close>

definition os_Stat_ok :: "world \<Rightarrow> string \<times> string \<Rightarrow> bool" where
  "os_Stat_ok w filePath = (files w filePath \<noteq> None)"

text \<open>\<open>os.OpenFile\<close> with \<open>O_CREATE|O_WRONLY|O_APPEND\<close>: an absent file is created empty.\<close>

definition os_OpenFile_append :: "world \<Rightarrow> string \<times> string \<Rightarrow> error option \<times> world" where
  "os_OpenFile_append w filePath =
     (if fst filePath \<in> dirs w
      then (None, (case files w filePath of
                     None \<Rightarrow> w\<lparr>files := (files w)(filePath \<mapsto> [])\<rparr>
                   | Some data \<Rightarrow> w))
      else (Some ''open: no such file or directory'', w))"

text \<open>Appending through the writer, once it is flushed.\<close>

definition file_append :: "world \<Rightarrow> string \<times> string \<Rightarrow> segment list \<Rightarrow> world" where
  "file_append w filePath written =
     w\<lparr>files := (files w)(filePath \<mapsto>
          (case files w filePath of None \<Rightarrow> [] | Some data \<Rightarrow> data) @ written)\<rparr>"

text \<open>
  \<open>encoding/json\<close> fails with an unsupported-value error on a float that is not finite,
  and \<open>time.Time\<close> refuses to encode a year outside 0..9999.
\<close>

definition encodable :: "HistoricalData \<Rightarrow> bool" where
  "encodable c =
     ((case Open c of Finite x \<Rightarrow> True | _ \<Rightarrow> False) \<and>
      (case High c of Finite x \<Rightarrow> True | _ \<Rightarrow> False) \<and>
      (case Low c of Finite x \<Rightarrow> True | _ \<Rightarrow> False) \<and>
      (case Close c of Finite x \<Rightarrow> True | _ \<Rightarrow> False) \<and>
      dateUTC 0 1 1 \<le> Date c \<and> Date c < dateUTC 10000 1 1)"

definition json_MarshalIndent :: "HistoricalData list \<Rightarrow> error + segment list" where
  "json_MarshalIndent allData =
     (if list_all encodable allData then Inr [JSONArray allData]
      else Inl ''json: unsupported value'')"


text \<open>
  \<open>json.Unmarshal(data, &existingData)\<close> on a nil slice: the value left in the slice and
  the error returned.  Input that is not valid JSON is rejected by the decoder's validity
  scan before anything is stored; valid JSON of another shape is decoded as far as it
  goes, and the mismatch is reported after that.
\<close>

definition json_Unmarshal :: "segment list \<Rightarrow> HistoricalData list \<times> error option" where
  "json_Unmarshal data =
     (case data of
        [JSONArray cs] \<Rightarrow> (cs, None)
      | [JSONOther decoded] \<Rightarrow> (decoded, Some ''json: cannot unmarshal'')
      | _ \<Rightarrow> ([], Some ''invalid character''))"

text \<open>
  \<open>sql.Open\<close>.  The two drivers the storage package registers through its blank imports
  are \<open>duckdb\<close> and \<open>sqlite3\<close>.  The DuckDB driver opens the database at once, and
  fails when it cannot be reached; the SQLite driver connects on first use, so that opening
  it reports nothing.
\<close>

definition sql_Open :: "world \<Rightarrow> string \<Rightarrow> string \<Rightarrow> error option" where
  "sql_Open w driverName path =
     (if driverName = ''duckdb'' then
        (case dbs w path of
           None \<Rightarrow> Some ''could not open database''
         | Some db \<Rightarrow> None)
      else if driverName = ''sqlite3'' then None
      else Some ''sql: unknown driver'')"

text \<open>\<open>CREATE TABLE IF NOT EXISTS ohlcv (...)\<close>.\<close>

definition create_table_if_not_exists :: "database \<Rightarrow> database" where
  "create_table_if_not_exists db =
     (case tables db ''ohlcv'' of
        None \<Rightarrow> db\<lparr>tables := (tables db)(''ohlcv'' \<mapsto> [])\<rparr>
      | Some rows \<Rightarrow> db)"


section \<open>Storage backends (package storage)\<close>

datatype Store =
    DuckDBStore string
  | SQLiteStore string
  | JSONStore string
  | CSVStore string

definition StorageTypeDuckDB :: string where "StorageTypeDuckDB = ''duckdb''"
definition StorageTypeSQLite :: string where "StorageTypeSQLite = ''sqlite''"
definition StorageTypeJSON :: string where "StorageTypeJSON = ''json''"
definition StorageTypeCSV :: string where "StorageTypeCSV = ''csv''"

definition NewDuckDBStore :: "world \<Rightarrow> string \<Rightarrow> error + Store" where
  "NewDuckDBStore w path =
     (case sql_Open w ''duckdb'' path of
        Some err \<Rightarrow> Inl ''duckdb connection failed''
      | None \<Rightarrow> Inr (DuckDBStore path))"

definition NewSQLiteStore :: "world \<Rightarrow> string \<Rightarrow> error + Store" where
  "NewSQLiteStore w path =
     (case sql_Open w ''sqlite3'' path of
        Some err \<Rightarrow> Inl ''sqlite connection failed''
      | None \<Rightarrow> Inr (SQLiteStore path))"

definition NewJSONStore :: "string \<Rightarrow> error + Store" where
  "NewJSONStore basePath = Inr (JSONStore basePath)"

definition NewCSVStore :: "string \<Rightarrow> error + Store" where
  "NewCSVStore basePath = Inr (CSVStore basePath)"

text \<open>
  The constructors are given the machine they run on, because opening a DuckDB database
  depends on it; none of them changes it.
\<close>

definition NewStore :: "world \<Rightarrow> string \<Rightarrow> string \<Rightarrow> error + Store" where
  "NewStore w storageType path =
     (if storageType = StorageTypeDuckDB then NewDuckDBStore w path
      else if storageType = StorageTypeSQLite then NewSQLiteStore w path
      else if storageType = StorageTypeJSON then NewJSONStore path
      else if storageType = StorageTypeCSV then NewCSVStore path
      else NewDuckDBStore w path)"

subsection \<open>Init\<close>

definition DuckDBStore_Init :: "string \<Rightarrow> world \<Rightarrow> error option \<times> world" where
  "DuckDBStore_Init path w =
     (case dbs w path of
        None \<Rightarrow> (Some ''failed to create DuckDB table'', w)
      | Some db \<Rightarrow> (None, w\<lparr>dbs := (dbs w)(path \<mapsto> create_table_if_not_exists db)\<rparr>))"

definition SQLiteStore_Init :: "string \<Rightarrow> world \<Rightarrow> error option \<times> world" where
  "SQLiteStore_Init path w =
     (case dbs w path of
        None \<Rightarrow> (Some ''failed to create SQLite table'', w)
      | Some db \<Rightarrow> (None, w\<lparr>dbs := (dbs w)(path \<mapsto> create_table_if_not_exists db)\<rparr>))"

definition JSONStore_Init :: "string \<Rightarrow> world \<Rightarrow> error option \<times> world" where
  "JSONStore_Init basePath w =
     (case os_MkdirAll w basePath of
        (Some err, w') \<Rightarrow> (Some ''failed to create JSON storage directory'', w')
      | (None, w') \<Rightarrow> (None, w'))"

definition CSVStore_Init :: "string \<Rightarrow> world \<Rightarrow> error option \<times> world" where
  "CSVStore_Init basePath w =
     (case os_MkdirAll w basePath of
        (Some err, w') \<Rightarrow> (Some ''failed to create CSV storage directory'', w')
      | (None, w') \<Rightarrow> (None, w'))"

fun Init :: "Store \<Rightarrow> world \<Rightarrow> error option \<times> world" where
  "Init (DuckDBStore path) w = DuckDBStore_Init path w"
| "Init (SQLiteStore path) w = SQLiteStore_Init path w"
| "Init (JSONStore basePath) w = JSONStore_Init basePath w"
| "Init (CSVStore basePath) w = CSVStore_Init basePath w"

subsection \<open>StoreCandles\<close>

text \<open>
  The \<open>for _, c := range candles\<close> loop of the two database stores: a row the engine
  refuses is logged and skipped, any other row joins the transaction and is counted.
\<close>

fun insert_loop :: "(row \<Rightarrow> bool) \<Rightarrow> string \<Rightarrow> HistoricalData list \<Rightarrow> row list \<times> nat \<Rightarrow> row list \<times> nat" where
  "insert_loop ok instrumentSymbol [] (pending, inserted) = (pending, inserted)"
| "insert_loop ok instrumentSymbol (c # candles) (pending, inserted) =
     (let r = (instrumentSymbol, Open c, High c, Low c, Close c, Date c, Volume c)
      in if \<not> ok r
         then insert_loop ok instrumentSymbol candles (pending, inserted)
         else insert_loop ok instrumentSymbol candles (pending @ [r], inserted + 1))"

definition DuckDBStore_StoreCandles ::
    "string \<Rightarrow> string \<Rightarrow> HistoricalData list \<Rightarrow> world \<Rightarrow> (nat \<times> error option) \<times> world" where
  "DuckDBStore_StoreCandles path instrumentSymbol candles w =
     (case dbs w path of
        None \<Rightarrow> ((0, Some ''DB transaction error''), w)
      | Some db \<Rightarrow>
          (case tables db ''ohlcv'' of
             None \<Rightarrow> ((0, Some ''DB prepare error''), w)
           | Some rows \<Rightarrow>
               (let (pending, inserted) = insert_loop (accepts db) instrumentSymbol candles ([], 0)
                in if \<not> commits db then ((0, Some ''commit error''), w)
                   else ((inserted, None),
                         w\<lparr>dbs := (dbs w)(path \<mapsto>
                              db\<lparr>tables := (tables db)(''ohlcv'' \<mapsto> rows @ pending)\<rparr>)\<rparr>))))"

definition SQLiteStore_StoreCandles ::
    "string \<Rightarrow> string \<Rightarrow> HistoricalData list \<Rightarrow> world \<Rightarrow> (nat \<times> error option) \<times> world" where
  "SQLiteStore_StoreCandles path instrumentSymbol candles w =
     (case dbs w path of
        None \<Rightarrow> ((0, Some ''DB transaction error''), w)
      | Some db \<Rightarrow>
          (case tables db ''ohlcv'' of
             None \<Rightarrow> ((0, Some ''DB prepare error''), w)
           | Some rows \<Rightarrow>
               (let (pending, inserted) = insert_loop (accepts db) instrumentSymbol candles ([], 0)
                in if \<not> commits db then ((0, Some ''commit error''), w)
                   else ((inserted, None),
                         w\<lparr>dbs := (dbs w)(path \<mapsto>
                              db\<lparr>tables := (tables db)(''ohlcv'' \<mapsto> rows @ pending)\<rparr>)\<rparr>))))"

definition JSONStore_StoreCandles ::
    "string \<Rightarrow> string \<Rightarrow> HistoricalData list \<Rightarrow> world \<Rightarrow> (nat \<times> error option) \<times> world" where
  "JSONStore_StoreCandles basePath instrumentSymbol candles w =
     (let fileName = instrumentSymbol @ ''.json'';
          filePath = (basePath, fileName);
          existingData = (case os_ReadFile w filePath of
                            Inr data \<Rightarrow> fst (json_Unmarshal data)
                          | Inl err \<Rightarrow> []);
          allData = existingData @ candles
      in case json_MarshalIndent allData of
           Inl err \<Rightarrow> ((0, Some ''failed to marshal JSON data''), w)
         | Inr jsonData \<Rightarrow>
             (case os_WriteFile w filePath jsonData of
                (Some err, w') \<Rightarrow> ((0, Some ''failed to write JSON file''), w')
              | (None, w') \<Rightarrow> ((length candles, None), w')))"

definition csv_header :: "csv_field list" where
  "csv_header = [FieldStr ''instrument'', FieldStr ''timestamp'', FieldStr ''open'', FieldStr ''high'',
                 FieldStr ''low'', FieldStr ''close'', FieldStr ''volume'']"

fun csv_write_loop ::
    "(csv_field list \<Rightarrow> bool) \<Rightarrow> string \<Rightarrow> HistoricalData list \<Rightarrow> segment list \<times> nat \<Rightarrow> segment list \<times> nat" where
  "csv_write_loop ok instrumentSymbol [] (written, inserted) = (written, inserted)"
| "csv_write_loop ok instrumentSymbol (c # candles) (written, inserted) =
     (let record = [FieldStr instrumentSymbol, FieldTime (Date c), FieldFloat (Open c), FieldFloat (High c),
                    FieldFloat (Low c), FieldFloat (Close c), FieldInt (Volume c)]
      in if \<not> ok record
         then csv_write_loop ok instrumentSymbol candles (written, inserted)
         else csv_write_loop ok instrumentSymbol candles (written @ [CSVRecord record], inserted + 1))"

definition CSVStore_StoreCandles ::
    "string \<Rightarrow> string \<Rightarrow> HistoricalData list \<Rightarrow> world \<Rightarrow> (nat \<times> error option) \<times> world" where
  "CSVStore_StoreCandles basePath instrumentSymbol candles w =
     (let fileName = instrumentSymbol @ ''.csv'';
          filePath = (basePath, fileName);
          fileExists = os_Stat_ok w filePath
      in case os_OpenFile_append w filePath of
           (Some err, w') \<Rightarrow> ((0, Some ''failed to open CSV file''), w')
         | (None, w') \<Rightarrow>
             if \<not> fileExists \<and> \<not> csv_write_ok w' csv_header
             then ((0, Some ''failed to write CSV header''), w')
             else
               (let (written, inserted) =
                      csv_write_loop (csv_write_ok w') instrumentSymbol candles
                        (if \<not> fileExists then [CSVRecord csv_header] else [], 0)
                in ((inserted, None), file_append w' filePath written)))"

fun StoreCandles ::
    "Store \<Rightarrow> string \<Rightarrow> HistoricalData list \<Rightarrow> world \<Rightarrow> (nat \<times> error option) \<times> world" where
  "StoreCandles (DuckDBStore path) = DuckDBStore_StoreCandles path"
| "StoreCandles (SQLiteStore path) = SQLiteStore_StoreCandles path"
| "StoreCandles (JSONStore basePath) = JSONStore_StoreCandles basePath"
| "StoreCandles (CSVStore basePath) = CSVStore_StoreCandles basePath"


section \<open>The API client (package kite)\<close>

text \<open>
  A \<open>context.Context\<close>, as far as a wait can observe it: the background context, which
  is never cancelled and has no deadline, or a cancellable one together with whether its
  cancellation arrives before the wait is over.
\<close>

datatype Context = Background | WithCancel bool

text \<open>
  \<open>(*rate.Limiter).Wait(ctx)\<close> for one token on a limiter of burst 1: it returns an
  error only when the context is cancelled (or its deadline is too close), and nil once
  a token is available.
\<close>

definition rate_Wait :: "Context \<Rightarrow> error option" where
  "rate_Wait ctx =
     (case ctx of
        Background \<Rightarrow> None
      | WithCancel cancelled \<Rightarrow> (if cancelled then Some ''context canceled'' else None))"

text \<open>
  The struct \<open>Client\<close>: \<open>kc\<close> is the upstream historical-data endpoint as
  \<open>kc.GetHistoricalData\<close> answers it, \<open>limiter\<close> the \<open>Wait\<close> method of the client's limiter.
\<close>

record Client =
  kc :: "int \<Rightarrow> string \<Rightarrow> time \<Rightarrow> time \<Rightarrow> error + HistoricalData list"
  limiter :: "Context \<Rightarrow> error option"

definition NewClient :: "(int \<Rightarrow> string \<Rightarrow> time \<Rightarrow> time \<Rightarrow> error + HistoricalData list) \<Rightarrow> Client" where
  "NewClient api = \<lparr>kc = api, limiter = rate_Wait\<rparr>"

definition GetHistoricalData ::
    "Client \<Rightarrow> int \<Rightarrow> string \<Rightarrow> time \<Rightarrow> time \<Rightarrow> error + HistoricalData list" where
  "GetHistoricalData c instrumentToken interval from to =
     (case limiter c Background of
        Some err \<Rightarrow> Inl ''rate limiter error''
      | None \<Rightarrow>
          (case kc c instrumentToken interval from to of
             Inl err \<Rightarrow> Inl ''API error''
           | Inr candles \<Rightarrow> Inr candles))"


text \<open>
  The fetch as the specification describes it (sections 4.3 and 4.4), for comparison
  with the code: one \<open>acquire\<close> under the context of the caller, which gives a
  cancellation-aware failure when that context is cancelled while waiting, and then the
  upstream request.
\<close>

definition spec_fetch ::
    "Context \<Rightarrow> Client \<Rightarrow> int \<Rightarrow> string \<Rightarrow> time \<Rightarrow> time \<Rightarrow> error + HistoricalData list" where
  "spec_fetch ctx c instrumentToken interval from to =
     (case limiter c ctx of
        Some err \<Rightarrow> Inl ''rate limiter error''
      | None \<Rightarrow>
          (case kc c instrumentToken interval from to of
             Inl err \<Rightarrow> Inl ''API error''
           | Inr candles \<Rightarrow> Inr candles))"


section \<open>The fetching loop (package cli)\<close>

record Config =
  Instruments :: "string list"
  Interval :: string

text \<open>The calls the loop makes, in order, kept beside the state it computes.\<close>

datatype call =
    FetchCall int string time time
  | StoreCall string "HistoricalData list"

text \<open>The inner loop over the chunks of one instrument.\<close>

fun chunks_loop ::
    "Client \<Rightarrow> Store \<Rightarrow> string \<Rightarrow> string \<Rightarrow> int \<Rightarrow> (time \<times> time) list
       \<Rightarrow> nat \<times> call list \<times> world \<Rightarrow> nat \<times> call list \<times> world" where
  "chunks_loop client store interval instrumentSymbol token [] st = st"
| "chunks_loop client store interval instrumentSymbol token ((chunkFrom, chunkTo) # chunks)
       (totalInserted, trace, w) =
     (case GetHistoricalData client token interval chunkFrom chunkTo of
        Inl err \<Rightarrow>
          chunks_loop client store interval instrumentSymbol token chunks
            (totalInserted, trace @ [FetchCall token interval chunkFrom chunkTo], w)
      | Inr candles \<Rightarrow>
          if length candles = 0 then
            chunks_loop client store interval instrumentSymbol token chunks
              (totalInserted, trace @ [FetchCall token interval chunkFrom chunkTo], w)
          else
            (case StoreCandles store instrumentSymbol candles w of
               ((inserted, Some err), w') \<Rightarrow>
                 chunks_loop client store interval instrumentSymbol token chunks
                   (totalInserted,
                    trace @ [FetchCall token interval chunkFrom chunkTo,
                             StoreCall instrumentSymbol candles], w')
             | ((inserted, None), w') \<Rightarrow>
                 chunks_loop client store interval instrumentSymbol token chunks
                   (totalInserted + inserted,
                    trace @ [FetchCall token interval chunkFrom chunkTo,
                             StoreCall instrumentSymbol candles], w')))"

text \<open>The outer loop over \<open>conf.Instruments\<close>.\<close>

fun instruments_loop ::
    "Config \<Rightarrow> (string \<rightharpoonup> int) \<Rightarrow> Client \<Rightarrow> Store \<Rightarrow> time \<Rightarrow> time \<Rightarrow> string list
       \<Rightarrow> nat \<times> nat \<times> call list \<times> world \<Rightarrow> nat \<times> nat \<times> call list \<times> world" where
  "instruments_loop conf tokenMap client store from to [] st = st"
| "instruments_loop conf tokenMap client store from to (instrumentSymbol # rest)
       (processedInstruments, totalCandles, trace, w) =
     (case tokenMap instrumentSymbol of
        None \<Rightarrow>
          instruments_loop conf tokenMap client store from to rest
            (processedInstruments, totalCandles, trace, w)
      | Some token \<Rightarrow>
          (let chunks = GenerateDateChunks from to (Interval conf);
               (totalInserted, trace', w') =
                  chunks_loop client store (Interval conf) instrumentSymbol token chunks
                    (0, trace, w)
           in instruments_loop conf tokenMap client store from to rest
                (processedInstruments + 1, totalCandles + totalInserted, trace', w')))"

text \<open>
  \<open>runFetchingLoop\<close>: the numbers of processed instruments and of saved candles that it
  prints at the end, the calls it made, and the world it leaves.
\<close>

definition runFetchingLoop ::
    "Config \<Rightarrow> (string \<rightharpoonup> int) \<Rightarrow> Client \<Rightarrow> Store \<Rightarrow> time \<Rightarrow> time \<Rightarrow> world
       \<Rightarrow> nat \<times> nat \<times> call list \<times> world" where
  "runFetchingLoop conf tokenMap client store from to w =
     instruments_loop conf tokenMap client store from to (Instruments conf) (0, 0, [], w)"

text \<open>
  What the loop is expected to call: one fetch for every chunk of an instrument, and one
  \<open>StoreCandles\<close> for every chunk whose fetch succeeds with at least one candle.
\<close>

definition is_fetch :: "call \<Rightarrow> bool" where
  "is_fetch c = (case c of FetchCall token interval chunkFrom chunkTo \<Rightarrow> True
                          | StoreCall instrumentSymbol candles \<Rightarrow> False)"

definition is_store :: "call \<Rightarrow> bool" where
  "is_store c = (case c of FetchCall token interval chunkFrom chunkTo \<Rightarrow> False
                          | StoreCall instrumentSymbol candles \<Rightarrow> True)"

definition chunk_fetches :: "string \<Rightarrow> int \<Rightarrow> (time \<times> time) list \<Rightarrow> call list" where
  "chunk_fetches interval token chunks =
     map (\<lambda>(chunkFrom, chunkTo). FetchCall token interval chunkFrom chunkTo) chunks"

definition chunk_stores ::
    "Client \<Rightarrow> string \<Rightarrow> string \<Rightarrow> int \<Rightarrow> (time \<times> time) list \<Rightarrow> call list" where
  "chunk_stores client interval instrumentSymbol token chunks =
     concat (map (\<lambda>(chunkFrom, chunkTo).
        (case GetHistoricalData client token interval chunkFrom chunkTo of
           Inl err \<Rightarrow> []
         | Inr candles \<Rightarrow> if candles = [] then [] else [StoreCall instrumentSymbol candles]))
       chunks)"


section \<open>Example inputs\<close>

definition candle :: "time \<Rightarrow> float64 \<Rightarrow> HistoricalData" where
  "candle t price =
     \<lparr>Date = t, Open = price, High = price, Low = price, Close = price, Volume = 100, OI = 0\<rparr>"

text \<open>An empty database that accepts every row, and the machine that holds only it.\<close>

definition fresh_db :: database where
  "fresh_db = \<lparr>tables = Map.empty, accepts = (\<lambda>r. True), commits = True\<rparr>"

definition db_world :: world where
  "db_world =
     \<lparr>dirs = {}, protected = {}, files = Map.empty, csv_write_ok = (\<lambda>r. True),
      dbs = [''market_data.sqlite'' \<mapsto> fresh_db]\<rparr>"

text \<open>The machine that holds one reachable, empty DuckDB database.\<close>

definition duck_world :: world where
  "duck_world =
     \<lparr>dirs = {}, protected = {}, files = Map.empty, csv_write_ok = (\<lambda>r. True),
      dbs = [''market_data.duckdb'' \<mapsto> fresh_db]\<rparr>"


text \<open>
  A machine on which the file of instrument \<open>SBIN\<close> holds one stored candle followed by a
  stray closing bracket, so that the file as a whole is not valid JSON.
\<close>

definition stray_world :: world where
  "stray_world =
     \<lparr>dirs = {''data/json''}, protected = {},
      files = [(''data/json'', ''SBIN.json'')
                 \<mapsto> [JSONArray [candle (dateUTC 2024 1 1) (Finite 100)], Bytes '']'']],
      csv_write_ok = (\<lambda>r. True), dbs = Map.empty\<rparr>"

text \<open>A machine on which the JSON store's directory exists and is empty.\<close>

definition empty_world :: world where
  "empty_world =
     \<lparr>dirs = {''data/json''}, protected = {}, files = Map.empty,
      csv_write_ok = (\<lambda>r. True), dbs = Map.empty\<rparr>"

text \<open>An upstream that answers every request with one candle at the start of the range.\<close>

definition one_candle_api :: "int \<Rightarrow> string \<Rightarrow> time \<Rightarrow> time \<Rightarrow> error + HistoricalData list" where
  "one_candle_api instrumentToken interval from to = Inr [candle from (Finite 100)]"

text \<open>
  An upstream that fails the request starting on 2024-01-01, has no candles for the one
  starting one second after 2024-03-01, and answers every other request with one candle.
\<close>

definition flaky_api :: "int \<Rightarrow> string \<Rightarrow> time \<Rightarrow> time \<Rightarrow> error + HistoricalData list" where
  "flaky_api instrumentToken interval from to =
     (if from = dateUTC 2024 1 1 then Inl ''gateway timeout''
      else if from = dateUTC 2024 3 1 + Second then Inr []
      else Inr [candle from (Finite 100)])"

definition two_of_three :: Config where
  "two_of_three = \<lparr>Instruments = [''SBIN'', ''NOSUCH'', ''INFY''], Interval = ''minute''\<rparr>"

definition two_tokens :: "string \<rightharpoonup> int" where
  "two_tokens = [''SBIN'' \<mapsto> 779521, ''INFY'' \<mapsto> 408065]"


section \<open>Properties of the chunker\<close>

declare GenerateDateChunks_loop.simps [simp del]

lemma chunkSize_pos: "0 < chunkSize interval"
  by (simp add: chunkSize_def DailyChunkDays_def IntradayMaxDays_def Hour_def Second_def)

lemma GenerateDateChunks_loop_done: "\<not> s < t \<Longrightarrow> GenerateDateChunks_loop interval s t = []"
  by (subst GenerateDateChunks_loop.simps) simp

lemma GenerateDateChunks_loop_step:
  "s < t \<Longrightarrow> GenerateDateChunks_loop interval s t =
     (s, min (s + chunkSize interval) t)
       # GenerateDateChunks_loop interval (min (s + chunkSize interval) t + Second) t"
  by (subst GenerateDateChunks_loop.simps) (simp add: Let_def min_def)

lemma GenerateDateChunks_loop_Nil_iff: "GenerateDateChunks_loop interval s t = [] \<longleftrightarrow> \<not> s < t"
  by (cases "s < t") (simp_all add: GenerateDateChunks_loop_step GenerateDateChunks_loop_done)

lemma GenerateDateChunks_loop_hd: "s < t \<Longrightarrow> hd (GenerateDateChunks_loop interval s t) = (s, min (s + chunkSize interval) t)"
  by (simp add: GenerateDateChunks_loop_step)

lemma GenerateDateChunks_loop_chunk_bounds:
  "c \<in> set (GenerateDateChunks_loop interval s t) \<Longrightarrow>
     s \<le> fst c \<and> fst c < snd c \<and> snd c \<le> t \<and> snd c - fst c \<le> chunkSize interval"
proof (induction interval s t rule: GenerateDateChunks_loop.induct)
  case (1 interval s t)
  have pos: "0 < chunkSize interval" by (rule chunkSize_pos)
  show ?case
  proof (cases "s < t")
    case False
    with "1.prems" show ?thesis by (simp add: GenerateDateChunks_loop_done)
  next
    case True
    let ?e = "min (s + chunkSize interval) t"
    from "1.prems" True consider "c = (s, ?e)"
      | "c \<in> set (GenerateDateChunks_loop interval (?e + Second) t)"
      by (auto simp: GenerateDateChunks_loop_step)
    then show ?thesis
    proof cases
      case 1
      then show ?thesis using True pos by auto
    next
      case 2
      have eq: "(if t < s + chunkSize interval then t else s + chunkSize interval) = ?e"
        by (simp add: min_def)
      have "?e + Second \<le> fst c \<and> fst c < snd c \<and> snd c \<le> t
          \<and> snd c - fst c \<le> chunkSize interval"
        using "1.IH" [OF True refl refl, unfolded eq, OF 2] .
      moreover have "s < ?e" using True pos by auto
      ultimately show ?thesis by (auto simp: Second_def)
    qed
  qed
qed

lemma GenerateDateChunks_loop_adjacent:
  "Suc k < length (GenerateDateChunks_loop interval s t) \<Longrightarrow>
     snd (GenerateDateChunks_loop interval s t ! k) + Second
       = fst (GenerateDateChunks_loop interval s t ! Suc k)"
proof (induction interval s t arbitrary: k rule: GenerateDateChunks_loop.induct)
  case (1 interval s t)
  show ?case
  proof (cases "s < t")
    case False
    with "1.prems" show ?thesis by (simp add: GenerateDateChunks_loop_done)
  next
    case True
    let ?e = "min (s + chunkSize interval) t"
    let ?rest = "GenerateDateChunks_loop interval (?e + Second) t"
    have eq: "(if t < s + chunkSize interval then t else s + chunkSize interval) = ?e"
      by (simp add: min_def)
    have step: "GenerateDateChunks_loop interval s t = (s, ?e) # ?rest"
      using True by (rule GenerateDateChunks_loop_step)
    show ?thesis
    proof (cases k)
      case 0
      from "1.prems" step 0 have "?rest \<noteq> []" by auto
      then have "?e + Second < t" by (simp add: GenerateDateChunks_loop_Nil_iff)
      then have "hd ?rest = (?e + Second, min (?e + Second + chunkSize interval) t)"
        by (rule GenerateDateChunks_loop_hd)
      with \<open>?rest \<noteq> []\<close> have "fst (?rest ! 0) = ?e + Second"
        by (simp add: hd_conv_nth)
      then show ?thesis using 0 step by simp
    next
      case (Suc j)
      from "1.prems" step Suc have "Suc j < length ?rest" by simp
      then have "snd (?rest ! j) + Second = fst (?rest ! Suc j)"
        using "1.IH" [OF True refl refl, of j] by (simp only: eq)
      then show ?thesis using Suc step by simp
    qed
  qed
qed

lemma GenerateDateChunks_loop_last_end:
  assumes "s < t"
    and "0 < (t - s) mod (chunkSize interval + Second)"
    and "(t - s) mod (chunkSize interval + Second) \<le> chunkSize interval"
  shows "snd (last (GenerateDateChunks_loop interval s t)) = t"
  using assms
proof (induction interval s t rule: GenerateDateChunks_loop.induct)
  case (1 interval s t)
  let ?cs = "chunkSize interval"
  let ?e = "min (s + ?cs) t"
  let ?rest = "GenerateDateChunks_loop interval (?e + Second) t"
  have pos: "0 < ?cs" by (rule chunkSize_pos)
  have eq: "(if t < s + ?cs then t else s + ?cs) = ?e"
    by (simp add: min_def)
  have step: "GenerateDateChunks_loop interval s t = (s, ?e) # ?rest"
    using "1.prems"(1) by (rule GenerateDateChunks_loop_step)
  show ?case
  proof (cases "t \<le> s + ?cs")
    case True
    then have "?e = t" by simp
    then have "?rest = []" by (simp add: GenerateDateChunks_loop_done Second_def)
    with step \<open>?e = t\<close> show ?thesis by simp
  next
    case False
    then have e: "?e = s + ?cs" by simp
    have lt: "?e + Second < t"
    proof (rule ccontr)
      assume "\<not> ?e + Second < t"
      with e False have range: "?cs < t - s" "t - s \<le> ?cs + Second" by simp_all
      show False
      proof (cases "t - s = ?cs + Second")
        case True
        then show ?thesis using "1.prems"(2) by simp
      next
        case False
        with range have "(t - s) mod (?cs + Second) = t - s"
          using pos by (simp add: Second_def)
        then show ?thesis using "1.prems"(3) range by simp
      qed
    qed
    have "(t - (?e + Second)) mod (?cs + Second) = (t - s) mod (?cs + Second)"
    proof -
      have "t - (?e + Second) = (t - s) - (?cs + Second)" using e by simp
      then show ?thesis by (metis minus_mod_self2)
    qed
    with "1.prems" have
      "0 < (t - (?e + Second)) mod (?cs + Second)"
      "(t - (?e + Second)) mod (?cs + Second) \<le> ?cs"
      by simp_all
    with "1.IH" [OF "1.prems"(1) refl refl, unfolded eq] lt
    have "snd (last ?rest) = t" by simp
    moreover from lt have "?rest \<noteq> []" by (simp add: GenerateDateChunks_loop_Nil_iff)
    ultimately show ?thesis using step by simp
  qed
qed

lemma GenerateDateChunks_loop_sorted:
  "sorted_wrt (\<lambda>c d. snd c < fst d) (GenerateDateChunks_loop interval s t)"
proof (induction interval s t rule: GenerateDateChunks_loop.induct)
  case (1 interval s t)
  show ?case
  proof (cases "s < t")
    case False
    then show ?thesis by (simp add: GenerateDateChunks_loop_done)
  next
    case True
    let ?e = "min (s + chunkSize interval) t"
    let ?rest = "GenerateDateChunks_loop interval (?e + Second) t"
    have eq: "(if t < s + chunkSize interval then t else s + chunkSize interval) = ?e"
      by (simp add: min_def)
    have "sorted_wrt (\<lambda>c d. snd c < fst d) ?rest"
      using "1.IH" [OF True refl refl] by (simp only: eq)
    moreover have "?e < fst d" if "d \<in> set ?rest" for d
      using GenerateDateChunks_loop_chunk_bounds [OF that] by (simp add: Second_def)
    ultimately show ?thesis using True by (simp add: GenerateDateChunks_loop_step)
  qed
qed

lemma GenerateDateChunks_loop_cong:
  "chunkSize i = chunkSize j \<Longrightarrow>
     GenerateDateChunks_loop i s t = GenerateDateChunks_loop j s t"
proof (induction i s t rule: GenerateDateChunks_loop.induct)
  case (1 i s t)
  show ?case
  proof (cases "s < t")
    case False
    then show ?thesis by (simp add: GenerateDateChunks_loop_done)
  next
    case True
    have eq: "(if t < s + chunkSize i then t else s + chunkSize i) = min (s + chunkSize i) t"
      by (simp add: min_def)
    have "GenerateDateChunks_loop i (min (s + chunkSize i) t + Second) t
        = GenerateDateChunks_loop j (min (s + chunkSize i) t + Second) t"
      using "1.IH" [OF True refl refl "1.prems"] by (simp only: eq)
    then show ?thesis
      using True "1.prems" by (simp add: GenerateDateChunks_loop_step)
  qed
qed


lemma GenerateDateChunks_loop_last_bounds:
  assumes "s < t"
  shows "t - Second \<le> snd (last (GenerateDateChunks_loop interval s t)) \<and>
         snd (last (GenerateDateChunks_loop interval s t)) \<le> t"
  using assms
proof (induction interval s t rule: GenerateDateChunks_loop.induct)
  case (1 interval s t)
  let ?cs = "chunkSize interval"
  let ?e = "min (s + ?cs) t"
  let ?rest = "GenerateDateChunks_loop interval (?e + Second) t"
  have eq: "(if t < s + ?cs then t else s + ?cs) = ?e"
    by (simp add: min_def)
  have step: "GenerateDateChunks_loop interval s t = (s, ?e) # ?rest"
    using "1.prems" by (rule GenerateDateChunks_loop_step)
  show ?case
  proof (cases "?e + Second < t")
    case True
    then have "?rest \<noteq> []" by (simp add: GenerateDateChunks_loop_Nil_iff)
    moreover have "t - Second \<le> snd (last ?rest) \<and> snd (last ?rest) \<le> t"
      using "1.IH" [OF "1.prems" refl refl, unfolded eq, OF True] .
    ultimately show ?thesis using step by simp
  next
    case False
    then have "?rest = []" by (simp add: GenerateDateChunks_loop_done)
    with step have "snd (last (GenerateDateChunks_loop interval s t)) = ?e" by simp
    with False show ?thesis by (auto simp: Second_def min_def)
  qed
qed

lemma GenerateDateChunks_loop_last_end_iff:
  assumes "s < t"
  shows "snd (last (GenerateDateChunks_loop interval s t)) = t \<longleftrightarrow>
     0 < (t - s) mod (chunkSize interval + Second) \<and>
     (t - s) mod (chunkSize interval + Second) \<le> chunkSize interval"
  using assms
proof (induction interval s t rule: GenerateDateChunks_loop.induct)
  case (1 interval s t)
  let ?cs = "chunkSize interval"
  let ?e = "min (s + ?cs) t"
  let ?rest = "GenerateDateChunks_loop interval (?e + Second) t"
  have pos: "0 < ?cs" by (rule chunkSize_pos)
  have S: "0 < Second" by (simp add: Second_def)
  have eq: "(if t < s + ?cs then t else s + ?cs) = ?e"
    by (simp add: min_def)
  have step: "GenerateDateChunks_loop interval s t = (s, ?e) # ?rest"
    using "1.prems" by (rule GenerateDateChunks_loop_step)
  show ?case
  proof (cases "t \<le> s + ?cs")
    case True
    then have e: "?e = t" by simp
    then have "?rest = []" using S by (simp add: GenerateDateChunks_loop_done)
    with step e have l: "snd (last (GenerateDateChunks_loop interval s t)) = t" by simp
    have "(t - s) mod (?cs + Second) = t - s"
      using True "1.prems" S by simp
    with True "1.prems" l show ?thesis by simp
  next
    case False
    then have e: "?e = s + ?cs" by simp
    show ?thesis
    proof (cases "?e + Second < t")
      case True
      then have ne: "?rest \<noteq> []" by (simp add: GenerateDateChunks_loop_Nil_iff)
      have "t - (?e + Second) = (t - s) - (?cs + Second)" using e by simp
      then have m: "(t - (?e + Second)) mod (?cs + Second) = (t - s) mod (?cs + Second)"
        by (metis minus_mod_self2)
      have "snd (last ?rest) = t \<longleftrightarrow>
          0 < (t - (?e + Second)) mod (?cs + Second) \<and>
          (t - (?e + Second)) mod (?cs + Second) \<le> ?cs"
        using "1.IH" [OF "1.prems" refl refl, unfolded eq, OF True] .
      with ne step m show ?thesis by simp
    next
      case False': False
      then have "?rest = []" by (simp add: GenerateDateChunks_loop_done)
      with step e have l: "snd (last (GenerateDateChunks_loop interval s t)) = s + ?cs" by simp
      from False have ne: "s + ?cs \<noteq> t" by simp
      from False False' e have range: "?cs < t - s" "t - s \<le> ?cs + Second" by simp_all
      have "\<not> (0 < (t - s) mod (?cs + Second) \<and> (t - s) mod (?cs + Second) \<le> ?cs)"
      proof (cases "t - s = ?cs + Second")
        case True
        then show ?thesis by simp
      next
        case False
        with range have "(t - s) mod (?cs + Second) = t - s"
          using pos S by simp
        with range show ?thesis by simp
      qed
      with l ne show ?thesis by simp
    qed
  qed
qed

lemmas chunker_eval =
  GenerateDateChunks_def GenerateDateChunks_loop_step GenerateDateChunks_loop_done
  chunkSize_def IsDailyOrLarger_def parseIntervalMinutes_def intervalMap_def
  DailyChunkDays_def IntradayMaxDays_def dateUTC_def daysFromCivil_def Hour_def Second_def

text \<open>
  Claim C1, as the code supports it.  \<open>GenerateDateChunks\<close> returns no chunk exactly when
  \<open>from\<close> is not strictly before \<open>to\<close>.  In every case each chunk ends one second
  before the next one starts, no two chunks overlap, and every chunk is non-empty, lies
  between \<open>from\<close> and \<open>to\<close> and is no longer than the interval's window.  When
  \<open>from < to\<close>, the sequence is non-empty and starts at \<open>from\<close>, and its final chunk
  ends no later than \<open>to\<close> and at most one second before it; the final chunk ends exactly
  at \<open>to\<close> if and only if \<open>to\<close> does not fall within the one second that the loop skips
  after a full window, that is, the remainder of \<open>to - from\<close> modulo window plus one second
  is positive and at most the window.
\<close>

theorem GenerateDateChunks_partition:
  "(GenerateDateChunks from to interval = [] \<longleftrightarrow> \<not> from < to) \<and>
   (\<forall>k. Suc k < length (GenerateDateChunks from to interval) \<longrightarrow>
      snd (GenerateDateChunks from to interval ! k) + Second
        = fst (GenerateDateChunks from to interval ! Suc k)) \<and>
   sorted_wrt (\<lambda>c d. snd c < fst d) (GenerateDateChunks from to interval) \<and>
   (\<forall>c \<in> set (GenerateDateChunks from to interval).
      from \<le> fst c \<and> fst c < snd c \<and> snd c \<le> to \<and>
      snd c - fst c \<le> chunkSize interval) \<and>
   (from < to \<longrightarrow>
      GenerateDateChunks from to interval \<noteq> [] \<and>
      fst (hd (GenerateDateChunks from to interval)) = from \<and>
      to - Second \<le> snd (last (GenerateDateChunks from to interval)) \<and>
      snd (last (GenerateDateChunks from to interval)) \<le> to \<and>
      (snd (last (GenerateDateChunks from to interval)) = to \<longleftrightarrow>
         0 < (to - from) mod (chunkSize interval + Second) \<and>
         (to - from) mod (chunkSize interval + Second) \<le> chunkSize interval))"
proof (intro conjI impI allI ballI)
  show "GenerateDateChunks from to interval = [] \<longleftrightarrow> \<not> from < to"
    by (simp add: GenerateDateChunks_def GenerateDateChunks_loop_Nil_iff)
next
  fix k
  assume "Suc k < length (GenerateDateChunks from to interval)"
  then show "snd (GenerateDateChunks from to interval ! k) + Second
           = fst (GenerateDateChunks from to interval ! Suc k)"
    unfolding GenerateDateChunks_def by (rule GenerateDateChunks_loop_adjacent)
next
  show "sorted_wrt (\<lambda>c d. snd c < fst d) (GenerateDateChunks from to interval)"
    unfolding GenerateDateChunks_def by (rule GenerateDateChunks_loop_sorted)
next
  fix c
  assume "c \<in> set (GenerateDateChunks from to interval)"
  then show "from \<le> fst c" "fst c < snd c" "snd c \<le> to"
      "snd c - fst c \<le> chunkSize interval"
    unfolding GenerateDateChunks_def
    using GenerateDateChunks_loop_chunk_bounds [of c interval "from" to] by simp_all
next
  assume lt: "from < to"
  then show "GenerateDateChunks from to interval \<noteq> []"
    by (simp add: GenerateDateChunks_def GenerateDateChunks_loop_Nil_iff)
  from lt show "fst (hd (GenerateDateChunks from to interval)) = from"
    by (simp add: GenerateDateChunks_def GenerateDateChunks_loop_hd)
  from lt show "to - Second \<le> snd (last (GenerateDateChunks from to interval))"
      "snd (last (GenerateDateChunks from to interval)) \<le> to"
    unfolding GenerateDateChunks_def
    using GenerateDateChunks_loop_last_bounds [of "from" to interval] by simp_all
  from lt show "snd (last (GenerateDateChunks from to interval)) = to \<longleftrightarrow>
         0 < (to - from) mod (chunkSize interval + Second) \<and>
         (to - from) mod (chunkSize interval + Second) \<le> chunkSize interval"
    unfolding GenerateDateChunks_def by (rule GenerateDateChunks_loop_last_end_iff)
qed

text \<open>
  The first quarter of 2024 at one-minute candles: \<open>from\<close> is before \<open>to\<close>, the
  remainder is in range, and the final chunk ends at \<open>to\<close>.
\<close>

theorem GenerateDateChunks_partition_witness:
  "dateUTC 2024 1 1 < dateUTC 2024 4 1 \<and>
   0 < (dateUTC 2024 4 1 - dateUTC 2024 1 1) mod (chunkSize ''minute'' + Second) \<and>
   (dateUTC 2024 4 1 - dateUTC 2024 1 1) mod (chunkSize ''minute'' + Second) \<le> chunkSize ''minute'' \<and>
   GenerateDateChunks (dateUTC 2024 1 1) (dateUTC 2024 4 1) ''minute'' \<noteq> [] \<and>
   fst (hd (GenerateDateChunks (dateUTC 2024 1 1) (dateUTC 2024 4 1) ''minute'')) = dateUTC 2024 1 1 \<and>
   snd (last (GenerateDateChunks (dateUTC 2024 1 1) (dateUTC 2024 4 1) ''minute'')) = dateUTC 2024 4 1 \<and>
   sorted_wrt (\<lambda>c d. snd c < fst d)
     (GenerateDateChunks (dateUTC 2024 1 1) (dateUTC 2024 4 1) ''minute'')"
proof -
  have h: "dateUTC 2024 1 1 < dateUTC 2024 4 1 \<and>
   0 < (dateUTC 2024 4 1 - dateUTC 2024 1 1) mod (chunkSize ''minute'' + Second) \<and>
   (dateUTC 2024 4 1 - dateUTC 2024 1 1) mod (chunkSize ''minute'' + Second) \<le> chunkSize ''minute''"
    by (simp add: chunker_eval)
  from GenerateDateChunks_partition [of "dateUTC 2024 1 1" "dateUTC 2024 4 1" "''minute''"] h
  show ?thesis by blast
qed

text \<open>
  Claim C1 as stated fails when \<open>to\<close> lies one second after a full window: from
  2024-01-01 00:00:00 to 2024-03-01 00:00:01 at one-minute candles the only chunk ends at
  2024-03-01 00:00:00, one second short of \<open>to\<close>, because the next start is not before
  \<open>to\<close>.
\<close>

theorem GenerateDateChunks_final_chunk_counterexample:
  "dateUTC 2024 1 1 < dateUTC 2024 3 1 + Second \<and>
   GenerateDateChunks (dateUTC 2024 1 1) (dateUTC 2024 3 1 + Second) ''minute''
     = [(dateUTC 2024 1 1, dateUTC 2024 3 1)] \<and>
   snd (last (GenerateDateChunks (dateUTC 2024 1 1) (dateUTC 2024 3 1 + Second) ''minute''))
     \<noteq> dateUTC 2024 3 1 + Second"
  by (simp add: chunker_eval)

text \<open>
  Claim C5.  For interval \<open>day\<close> from 2024-01-01 to 2024-01-05 the chunker returns exactly
  one chunk; for interval \<open>minute\<close> from 2024-01-01 to 2024-04-01, with the intraday cap of
  60 days, it returns exactly two chunks and the second ends exactly at \<open>to\<close>.
\<close>

theorem GenerateDateChunks_scenarios:
  "GenerateDateChunks (dateUTC 2024 1 1) (dateUTC 2024 1 5) ''day''
     = [(dateUTC 2024 1 1, dateUTC 2024 1 5)] \<and>
   length (GenerateDateChunks (dateUTC 2024 1 1) (dateUTC 2024 1 5) ''day'') = 1 \<and>
   IntradayMaxDays = 60 \<and>
   GenerateDateChunks (dateUTC 2024 1 1) (dateUTC 2024 4 1) ''minute''
     = [(dateUTC 2024 1 1, dateUTC 2024 3 1), (dateUTC 2024 3 1 + Second, dateUTC 2024 4 1)] \<and>
   length (GenerateDateChunks (dateUTC 2024 1 1) (dateUTC 2024 4 1) ''minute'') = 2 \<and>
   snd (GenerateDateChunks (dateUTC 2024 1 1) (dateUTC 2024 4 1) ''minute'' ! 1) = dateUTC 2024 4 1"
  by (simp add: chunker_eval)

text \<open>
  Claim C6.  For an interval token outside the recognised set, \<open>parseIntervalMinutes\<close>
  returns the default of one minute (it has no error result), so the token does not count
  as daily, its window is the intraday one of 60 days, and it is chunked exactly as
  \<open>minute\<close> is.
\<close>

theorem parseIntervalMinutes_unknown_default:
  assumes "interval \<notin> {''minute'', ''3minute'', ''5minute'', ''10minute'', ''15minute'',
             ''30minute'', ''60minute'', ''hour'', ''day''}"
  shows "parseIntervalMinutes interval = 1 \<and>
         \<not> IsDailyOrLarger interval \<and>
         chunkSize interval = IntradayMaxDays * 24 * Hour \<and>
         GenerateDateChunks from to interval = GenerateDateChunks from to ''minute''"
proof -
  from assms have p: "parseIntervalMinutes interval = 1"
    by (simp add: parseIntervalMinutes_def intervalMap_def)
  then have d: "\<not> IsDailyOrLarger interval" by (simp add: IsDailyOrLarger_def)
  then have c: "chunkSize interval = IntradayMaxDays * 24 * Hour" by (simp add: chunkSize_def)
  have "chunkSize ''minute'' = IntradayMaxDays * 24 * Hour"
    by (simp add: chunkSize_def IsDailyOrLarger_def parseIntervalMinutes_def intervalMap_def)
  with c have "chunkSize interval = chunkSize ''minute''" by simp
  then have "GenerateDateChunks from to interval = GenerateDateChunks from to ''minute''"
    unfolding GenerateDateChunks_def by (rule GenerateDateChunks_loop_cong)
  with p d c show ?thesis by simp
qed

text \<open>
  The token \<open>week\<close> is outside the recognised set.
\<close>

theorem parseIntervalMinutes_unknown_default_witness:
  "''week'' \<notin> {''minute'', ''3minute'', ''5minute'', ''10minute'', ''15minute'',
             ''30minute'', ''60minute'', ''hour'', ''day''} \<and>
   parseIntervalMinutes ''week'' = 1 \<and>
   \<not> IsDailyOrLarger ''week'' \<and>
   chunkSize ''week'' = IntradayMaxDays * 24 * Hour \<and>
   GenerateDateChunks (dateUTC 2024 1 1) (dateUTC 2024 4 1) ''week''
     = GenerateDateChunks (dateUTC 2024 1 1) (dateUTC 2024 4 1) ''minute''"
proof -
  have h: "''week'' \<notin> {''minute'', ''3minute'', ''5minute'', ''10minute'', ''15minute'',
             ''30minute'', ''60minute'', ''hour'', ''day''}"
    by simp
  from parseIntervalMinutes_unknown_default [OF h, of "dateUTC 2024 1 1" "dateUTC 2024 4 1"] h
  show ?thesis by blast
qed

lemma calendar_dates_stride:
  fixes a b :: int
  assumes "a < b" and "b - a \<le> 86400 * (chunkSize interval div (24 * Hour))"
  shows "0 < (b * 24 * Hour - a * 24 * Hour) mod (chunkSize interval + Second) \<and>
         (b * 24 * Hour - a * 24 * Hour) mod (chunkSize interval + Second) \<le> chunkSize interval"
proof -
  define D where "D = chunkSize interval div (24 * Hour)"
  define d where "d = b - a"
  have cs: "chunkSize interval = D * 86400 * Second"
    unfolding D_def by (auto simp: chunkSize_def DailyChunkDays_def IntradayMaxDays_def Hour_def Second_def)
  have Dpos: "0 < D" unfolding D_def
    by (auto simp: chunkSize_def DailyChunkDays_def IntradayMaxDays_def Hour_def Second_def)
  have span: "b * 24 * Hour - a * 24 * Hour = Second * (d * 86400)"
    by (simp add: d_def Hour_def algebra_simps)
  have stride: "chunkSize interval + Second = Second * (D * 86400 + 1)"
    by (simp add: cs algebra_simps)
  have d: "0 < d" "d \<le> 86400 * D" using assms by (simp_all add: d_def D_def)
  have m: "(b * 24 * Hour - a * 24 * Hour) mod (chunkSize interval + Second)
      = Second * ((d * 86400) mod (D * 86400 + 1))"
    unfolding span stride by (rule mult_mod_right [symmetric])
  have "gcd (86400::int) (D * 86400 + 1) = gcd 86400 1"
    by (rule gcd_add_mult)
  then have cop: "coprime (D * 86400 + 1) (86400::int)"
    by (simp add: coprime_iff_gcd_eq_1 gcd.commute)
  have "\<not> (D * 86400 + 1) dvd d * 86400"
  proof
    assume "(D * 86400 + 1) dvd d * 86400"
    with cop have "(D * 86400 + 1) dvd d"
      by (simp add: coprime_dvd_mult_left_iff)
    with d(1) have "D * 86400 + 1 \<le> d" by (rule zdvd_imp_le [rotated])
    with d(2) show False by simp
  qed
  then have nz: "(d * 86400) mod (D * 86400 + 1) \<noteq> 0"
    by (simp add: dvd_eq_mod_eq_0)
  have pos: "0 < D * 86400 + 1" using Dpos by simp
  have lo: "0 \<le> (d * 86400) mod (D * 86400 + 1)"
    using pos by (rule pos_mod_sign)
  have hi: "(d * 86400) mod (D * 86400 + 1) < D * 86400 + 1"
    using pos by (rule pos_mod_bound)
  from nz lo hi
  have r: "0 < (d * 86400) mod (D * 86400 + 1)" "(d * 86400) mod (D * 86400 + 1) \<le> D * 86400"
    by linarith+
  have S: "0 < Second" by (simp add: Second_def)
  from r(1) S have "0 < Second * ((d * 86400) mod (D * 86400 + 1))"
    by (rule mult_pos_pos [rotated])
  moreover from r(2) S have "Second * ((d * 86400) mod (D * 86400 + 1)) \<le> Second * (D * 86400)"
    by (simp add: mult_left_mono)
  moreover have "Second * (D * 86400) = chunkSize interval" by (simp add: cs)
  ultimately show ?thesis by (simp only: m)
qed

lemma GenerateDateChunks_calendar_dates:
  fixes a b :: int
  assumes "a < b" and "b - a \<le> 86400 * (chunkSize interval div (24 * Hour))"
  shows "snd (last (GenerateDateChunks (a * 24 * Hour) (b * 24 * Hour) interval)) = b * 24 * Hour"
proof -
  have "a * 24 * Hour < b * 24 * Hour"
    using assms(1) by (simp add: Hour_def Second_def)
  moreover note calendar_dates_stride [OF assms]
  ultimately show ?thesis
    unfolding GenerateDateChunks_def by (intro GenerateDateChunks_loop_last_end) simp_all
qed


section \<open>Properties of the storage backends\<close>

lemma os_MkdirAll_twice: "os_MkdirAll (snd (os_MkdirAll w path)) path = os_MkdirAll w path"
  by (simp add: os_MkdirAll_def)

lemma create_table_twice:
  "create_table_if_not_exists (create_table_if_not_exists db) = create_table_if_not_exists db"
  by (simp add: create_table_if_not_exists_def split: option.splits)

lemma DuckDBStore_Init_twice:
  "DuckDBStore_Init path (snd (DuckDBStore_Init path w)) = DuckDBStore_Init path w"
  by (simp add: DuckDBStore_Init_def create_table_twice split: option.splits)

lemma SQLiteStore_Init_twice:
  "SQLiteStore_Init path (snd (SQLiteStore_Init path w)) = SQLiteStore_Init path w"
  by (simp add: SQLiteStore_Init_def create_table_twice split: option.splits)

lemma JSONStore_Init_twice:
  "JSONStore_Init basePath (snd (JSONStore_Init basePath w)) = JSONStore_Init basePath w"
  by (simp add: JSONStore_Init_def os_MkdirAll_def)

lemma CSVStore_Init_twice:
  "CSVStore_Init basePath (snd (CSVStore_Init basePath w)) = CSVStore_Init basePath w"
  by (simp add: CSVStore_Init_def os_MkdirAll_def)

text \<open>
  Claim C8.  For every storage backend, a second \<open>Init\<close> right after the first returns what
  the first returned and leaves the machine exactly as the first left it: when the first
  call returns no error, the second returns no error and creates no further table or
  directory.
\<close>

theorem Init_idempotent:
  "Init s (snd (Init s w)) = Init s w \<and>
   (fst (Init s w) = None \<longrightarrow> Init s (snd (Init s w)) = (None, snd (Init s w)))"
proof -
  have twice: "Init s (snd (Init s w)) = Init s w"
    by (cases s)
      (simp_all add: DuckDBStore_Init_twice SQLiteStore_Init_twice JSONStore_Init_twice
        CSVStore_Init_twice)
  moreover have "Init s w = (None, snd (Init s w))" if "fst (Init s w) = None"
    using that by (simp add: prod_eq_iff)
  ultimately show ?thesis by simp
qed

text \<open>
  On a reachable empty SQLite database the first \<open>Init\<close> succeeds and creates the table
  \<open>ohlcv\<close>; the second changes nothing.
\<close>

theorem Init_idempotent_witness:
  "fst (Init (SQLiteStore ''market_data.sqlite'') db_world) = None \<and>
   Init (SQLiteStore ''market_data.sqlite'')
        (snd (Init (SQLiteStore ''market_data.sqlite'') db_world))
     = (None, snd (Init (SQLiteStore ''market_data.sqlite'') db_world)) \<and>
   dbs (snd (Init (SQLiteStore ''market_data.sqlite'') db_world)) ''market_data.sqlite''
     = Some (fresh_db\<lparr>tables := [''ohlcv'' \<mapsto> []]\<rparr>)"
proof -
  have h: "fst (Init (SQLiteStore ''market_data.sqlite'') db_world) = None"
    by (simp add: SQLiteStore_Init_def db_world_def)
  have t: "dbs (snd (Init (SQLiteStore ''market_data.sqlite'') db_world)) ''market_data.sqlite''
     = Some (fresh_db\<lparr>tables := [''ohlcv'' \<mapsto> []]\<rparr>)"
    by (simp add: SQLiteStore_Init_def db_world_def create_table_if_not_exists_def fresh_db_def)
  from Init_idempotent [of "SQLiteStore ''market_data.sqlite''" db_world] h t
  show ?thesis by blast
qed


text \<open>
  Claim C10.  For a storage-type token outside \<open>duckdb\<close>, \<open>sqlite\<close>, \<open>json\<close>, \<open>csv\<close>,
  \<open>NewStore\<close> takes the default branch: it returns what \<open>NewDuckDBStore\<close> returns, which
  is also what it returns for the token \<open>duckdb\<close>.  The unknown token is thus never itself
  a reason for an error; the only error left is the one DuckDB gives for its path.
\<close>

theorem NewStore_unknown_type:
  assumes "storageType \<notin> {''duckdb'', ''sqlite'', ''json'', ''csv''}"
  shows "NewStore w storageType path = NewDuckDBStore w path \<and>
         NewStore w storageType path = NewStore w ''duckdb'' path"
  using assms
  by (simp add: NewStore_def StorageTypeDuckDB_def
      StorageTypeSQLite_def StorageTypeJSON_def StorageTypeCSV_def)

text \<open>
  The token \<open>parquet\<close> is outside the recognised set; where the DuckDB database can be
  reached, a DuckDB store comes back.
\<close>

theorem NewStore_unknown_type_witness:
  "''parquet'' \<notin> {''duckdb'', ''sqlite'', ''json'', ''csv''} \<and>
   NewStore duck_world ''parquet'' ''market_data.duckdb''
     = NewDuckDBStore duck_world ''market_data.duckdb'' \<and>
   NewStore duck_world ''parquet'' ''market_data.duckdb''
     = NewStore duck_world ''duckdb'' ''market_data.duckdb'' \<and>
   NewStore duck_world ''parquet'' ''market_data.duckdb''
     = Inr (DuckDBStore ''market_data.duckdb'')"
proof -
  have h: "''parquet'' \<notin> {''duckdb'', ''sqlite'', ''json'', ''csv''}" by simp
  have e: "NewDuckDBStore duck_world ''market_data.duckdb''
      = Inr (DuckDBStore ''market_data.duckdb'')"
    by (simp add: NewDuckDBStore_def sql_Open_def duck_world_def)
  from NewStore_unknown_type [OF h, of duck_world "''market_data.duckdb''"] h e
  show ?thesis by metis
qed

lemmas world_eval =
  candle_def encodable_def dateUTC_def daysFromCivil_def Hour_def Second_def
  json_Unmarshal_def json_MarshalIndent_def os_ReadFile_def os_WriteFile_def

lemma insert_loop_filter:
  "insert_loop ok symbol cs (pending, inserted) =
     (pending @ filter ok (map (\<lambda>c. (symbol, Open c, High c, Low c, Close c, Date c, Volume c)) cs),
      inserted + length (filter ok
        (map (\<lambda>c. (symbol, Open c, High c, Low c, Close c, Date c, Volume c)) cs)))"
  by (induction cs arbitrary: pending inserted) (simp_all add: Let_def)

lemma length_filter_one_rejected:
  "list_all ok xs \<Longrightarrow> \<not> ok y \<Longrightarrow> list_all ok zs \<Longrightarrow>
     filter ok (xs @ y # zs) = xs @ zs \<and> length (filter ok (xs @ y # zs)) = length (xs @ y # zs) - 1"
  by (simp add: list_all_iff)

lemma SQLiteStore_StoreCandles_partial_success:
  assumes "dbs w path = Some db" and "tables db ''ohlcv'' = Some rows" and "commits db"
  shows "SQLiteStore_StoreCandles path symbol cs w =
    ((length (filter (accepts db)
        (map (\<lambda>c. (symbol, Open c, High c, Low c, Close c, Date c, Volume c)) cs)), None),
     w\<lparr>dbs := (dbs w)(path \<mapsto> db\<lparr>tables := (tables db)(''ohlcv'' \<mapsto> rows @ filter (accepts db)
        (map (\<lambda>c. (symbol, Open c, High c, Low c, Close c, Date c, Volume c)) cs))\<rparr>)\<rparr>)"
  using assms by (simp add: SQLiteStore_StoreCandles_def insert_loop_filter)

lemma DuckDBStore_StoreCandles_partial_success:
  assumes "dbs w path = Some db" and "tables db ''ohlcv'' = Some rows" and "commits db"
  shows "DuckDBStore_StoreCandles path symbol cs w =
    ((length (filter (accepts db)
        (map (\<lambda>c. (symbol, Open c, High c, Low c, Close c, Date c, Volume c)) cs)), None),
     w\<lparr>dbs := (dbs w)(path \<mapsto> db\<lparr>tables := (tables db)(''ohlcv'' \<mapsto> rows @ filter (accepts db)
        (map (\<lambda>c. (symbol, Open c, High c, Low c, Close c, Date c, Volume c)) cs))\<rparr>)\<rparr>)"
  using assms by (simp add: DuckDBStore_StoreCandles_def insert_loop_filter)

lemma csv_write_loop_filter:
  "csv_write_loop ok symbol cs (written, inserted) =
     (written @ map CSVRecord (filter ok (map (\<lambda>c. [FieldStr symbol, FieldTime (Date c),
         FieldFloat (Open c), FieldFloat (High c), FieldFloat (Low c), FieldFloat (Close c),
         FieldInt (Volume c)]) cs)),
      inserted + length (filter ok (map (\<lambda>c. [FieldStr symbol, FieldTime (Date c),
         FieldFloat (Open c), FieldFloat (High c), FieldFloat (Low c), FieldFloat (Close c),
         FieldInt (Volume c)]) cs)))"
  by (induction cs arbitrary: written inserted) (simp_all add: Let_def)

lemma CSVStore_StoreCandles_existing_file:
  assumes "files w (basePath, symbol @ ''.csv'') = Some old" and "basePath \<in> dirs w"
  shows "CSVStore_StoreCandles basePath symbol cs w =
    ((length (filter (csv_write_ok w) (map (\<lambda>c. [FieldStr symbol, FieldTime (Date c),
         FieldFloat (Open c), FieldFloat (High c), FieldFloat (Low c), FieldFloat (Close c),
         FieldInt (Volume c)]) cs)), None),
     w\<lparr>files := (files w)((basePath, symbol @ ''.csv'') \<mapsto>
        old @ map CSVRecord (filter (csv_write_ok w) (map (\<lambda>c. [FieldStr symbol, FieldTime (Date c),
         FieldFloat (Open c), FieldFloat (High c), FieldFloat (Low c), FieldFloat (Close c),
         FieldInt (Volume c)]) cs)))\<rparr>)"
  using assms
  by (simp add: CSVStore_StoreCandles_def os_Stat_ok_def os_OpenFile_append_def
      csv_write_loop_filter file_append_def)

lemma CSVStore_StoreCandles_new_file:
  assumes "files w (basePath, symbol @ ''.csv'') = None" and "basePath \<in> dirs w"
    and "csv_write_ok w csv_header"
  shows "CSVStore_StoreCandles basePath symbol cs w =
    ((length (filter (csv_write_ok w) (map (\<lambda>c. [FieldStr symbol, FieldTime (Date c),
         FieldFloat (Open c), FieldFloat (High c), FieldFloat (Low c), FieldFloat (Close c),
         FieldInt (Volume c)]) cs)), None),
     w\<lparr>files := (files w)((basePath, symbol @ ''.csv'') \<mapsto>
        CSVRecord csv_header # map CSVRecord (filter (csv_write_ok w) (map (\<lambda>c. [FieldStr symbol,
         FieldTime (Date c),
         FieldFloat (Open c), FieldFloat (High c), FieldFloat (Low c), FieldFloat (Close c),
         FieldInt (Volume c)]) cs)))\<rparr>)"
  using assms
  by (simp add: CSVStore_StoreCandles_def os_Stat_ok_def os_OpenFile_append_def
      csv_write_loop_filter file_append_def)

lemma csv_header_not_a_candle_record:
  "CSVRecord csv_header \<notin> set (map CSVRecord (filter ok (map (\<lambda>c. [FieldStr symbol,
         FieldTime (Date c),
         FieldFloat (Open c), FieldFloat (High c), FieldFloat (Low c), FieldFloat (Close c),
         FieldInt (Volume c)]) cs)))"
  by (auto simp: csv_header_def)

lemma JSONStore_StoreCandles_merges_parsable:
  assumes "files w (basePath, symbol @ ''.json'') = Some [JSONArray old]"
    and "list_all encodable (old @ cs)" and "basePath \<in> dirs w"
  shows "JSONStore_StoreCandles basePath symbol cs w =
    ((length cs, None),
     w\<lparr>files := (files w)((basePath, symbol @ ''.json'') \<mapsto> [JSONArray (old @ cs)])\<rparr>)"
  using assms
  by (simp add: JSONStore_StoreCandles_def os_ReadFile_def json_Unmarshal_def
      json_MarshalIndent_def os_WriteFile_def)

lemma JSONStore_StoreCandles_all_or_nothing:
  assumes "\<not> list_all encodable cs"
  shows "JSONStore_StoreCandles basePath symbol cs w = ((0, Some ''failed to marshal JSON data''), w)"
  using assms
  by (simp add: JSONStore_StoreCandles_def json_MarshalIndent_def Let_def)


lemma JSONStore_StoreCandles_other_json:
  assumes "files w (basePath, symbol @ ''.json'') = Some [JSONOther decoded]"
    and "list_all encodable (decoded @ cs)" and "basePath \<in> dirs w"
  shows "JSONStore_StoreCandles basePath symbol cs w =
    ((length cs, None),
     w\<lparr>files := (files w)((basePath, symbol @ ''.json'') \<mapsto> [JSONArray (decoded @ cs)])\<rparr>)"
  using assms
  by (simp add: JSONStore_StoreCandles_def os_ReadFile_def json_Unmarshal_def
      json_MarshalIndent_def os_WriteFile_def)




text \<open>
  Claim C2 at the JSON store.  A batch of three candles whose second has a NaN price is
  refused as a whole: the call returns count 0 with the marshalling error and writes
  nothing, so the two well-formed candles are not stored.  (The database and CSV stores
  skip the one row, as the lemmas above show.)
\<close>

theorem JSONStore_StoreCandles_malformed_record:
  "JSONStore_StoreCandles ''data/json'' ''SBIN''
      [candle (dateUTC 2024 1 1) (Finite 100),
       candle (dateUTC 2024 1 2) NaN,
       candle (dateUTC 2024 1 3) (Finite 101)] empty_world
     = ((0, Some ''failed to marshal JSON data''), empty_world) \<and>
   files empty_world (''data/json'', ''SBIN.json'') = None \<and>
   encodable (candle (dateUTC 2024 1 1) (Finite 100)) \<and>
   \<not> encodable (candle (dateUTC 2024 1 2) NaN) \<and>
   encodable (candle (dateUTC 2024 1 3) (Finite 101))"
  by (simp add: JSONStore_StoreCandles_def world_eval empty_world_def)


text \<open>
  Claim C7 at the JSON store.  When the existing file does not decode, here one stored
  candle followed by a stray bracket, \<open>StoreCandles\<close> does not merge: the file is
  rewritten with the new candle alone and the stored candle is gone.  (For a file that
  decodes, and for every CSV file, the lemmas above show the merge and the single header.)
\<close>

theorem JSONStore_StoreCandles_discards_stored_candles:
  "files stray_world (''data/json'', ''SBIN.json'')
     = Some [JSONArray [candle (dateUTC 2024 1 1) (Finite 100)], Bytes '']''] \<and>
   StoreCandles (JSONStore ''data/json'') ''SBIN'' [candle (dateUTC 2024 1 2) (Finite 101)]
       stray_world
     = ((1, None),
        stray_world\<lparr>files := [(''data/json'', ''SBIN.json'')
           \<mapsto> [JSONArray [candle (dateUTC 2024 1 2) (Finite 101)]]]\<rparr>)"
  by (simp add: JSONStore_StoreCandles_def world_eval stray_world_def)


section \<open>Properties of the client and of the fetching loop\<close>

text \<open>
  Claim C3, as the code supports it.  \<open>GetHistoricalData\<close> takes no context: for every
  client it is the fetch of the specification run under \<open>context.Background()\<close>.  It fails with the rate-limiter error
  exactly when the limiter's wait on the background context fails; when that wait returns
  nil, as it does for the limiter that \<open>NewClient\<close> installs, the result is the upstream
  answer, whatever the limiter would do with any other context.
\<close>

theorem GetHistoricalData_waits_on_background:
  "GetHistoricalData c instrumentToken interval from to
     = spec_fetch Background c instrumentToken interval from to \<and>
   (GetHistoricalData c instrumentToken interval from to = Inl ''rate limiter error''
      \<longleftrightarrow> limiter c Background \<noteq> None) \<and>
   (limiter c Background = None \<longrightarrow>
      GetHistoricalData c instrumentToken interval from to =
        (case kc c instrumentToken interval from to of
           Inl err \<Rightarrow> Inl ''API error''
         | Inr candles \<Rightarrow> Inr candles)) \<and>
   limiter (NewClient api) Background = None"
  by (auto simp: GetHistoricalData_def spec_fetch_def NewClient_def rate_Wait_def
      split: option.splits sum.splits)

text \<open>
  The client that \<open>NewClient\<close> builds over an upstream with one candle per request.
\<close>

theorem GetHistoricalData_waits_on_background_witness:
  "limiter (NewClient one_candle_api) Background = None \<and>
   GetHistoricalData (NewClient one_candle_api) 779521 ''day''
       (dateUTC 2024 1 1) (dateUTC 2024 1 5)
     = spec_fetch Background (NewClient one_candle_api) 779521 ''day''
         (dateUTC 2024 1 1) (dateUTC 2024 1 5) \<and>
   GetHistoricalData (NewClient one_candle_api) 779521 ''day''
       (dateUTC 2024 1 1) (dateUTC 2024 1 5)
     = Inr [candle (dateUTC 2024 1 1) (Finite 100)]"
proof -
  have h: "limiter (NewClient one_candle_api) Background = None"
    by (simp add: NewClient_def rate_Wait_def)
  have k: "kc (NewClient one_candle_api) 779521 ''day'' (dateUTC 2024 1 1) (dateUTC 2024 1 5)
      = Inr [candle (dateUTC 2024 1 1) (Finite 100)]"
    by (simp add: NewClient_def one_candle_api_def)
  note t = GetHistoricalData_waits_on_background
    [of "NewClient one_candle_api" 779521 "''day''" "dateUTC 2024 1 1" "dateUTC 2024 1 5"
        one_candle_api]
  from t have a: "GetHistoricalData (NewClient one_candle_api) 779521 ''day''
       (dateUTC 2024 1 1) (dateUTC 2024 1 5)
     = spec_fetch Background (NewClient one_candle_api) 779521 ''day''
         (dateUTC 2024 1 1) (dateUTC 2024 1 5)"
    by (rule conjunct1)
  from t h have "GetHistoricalData (NewClient one_candle_api) 779521 ''day''
       (dateUTC 2024 1 1) (dateUTC 2024 1 5)
     = (case kc (NewClient one_candle_api) 779521 ''day'' (dateUTC 2024 1 1) (dateUTC 2024 1 5) of
           Inl err \<Rightarrow> Inl ''API error''
         | Inr candles \<Rightarrow> Inr candles)"
    by blast
  then have b: "GetHistoricalData (NewClient one_candle_api) 779521 ''day''
       (dateUTC 2024 1 1) (dateUTC 2024 1 5)
     = Inr [candle (dateUTC 2024 1 1) (Finite 100)]"
    by (simp only: k sum.case)
  from h a b show ?thesis by (intro conjI)
qed

text \<open>
  Claim C3 as stated fails.  Take a caller whose context is cancelled while the limiter
  waits: the fetch of the specification, run under that context with the very same
  client, gives the rate-limiter failure, and \<open>GetHistoricalData\<close> returns the candles.
\<close>

theorem GetHistoricalData_cancelled_context_counterexample:
  "spec_fetch (WithCancel True) (NewClient one_candle_api) 779521 ''day''
       (dateUTC 2024 1 1) (dateUTC 2024 1 5)
     = Inl ''rate limiter error'' \<and>
   GetHistoricalData (NewClient one_candle_api) 779521 ''day''
       (dateUTC 2024 1 1) (dateUTC 2024 1 5)
     = Inr [candle (dateUTC 2024 1 1) (Finite 100)] \<and>
   GetHistoricalData (NewClient one_candle_api) 779521 ''day''
       (dateUTC 2024 1 1) (dateUTC 2024 1 5)
     \<noteq> spec_fetch (WithCancel True) (NewClient one_candle_api) 779521 ''day''
         (dateUTC 2024 1 1) (dateUTC 2024 1 5)"
  by (simp add: GetHistoricalData_def spec_fetch_def NewClient_def rate_Wait_def
      one_candle_api_def)

lemma chunks_loop_trace:
  "filter is_fetch (fst (snd (chunks_loop client store interval symbol token chunks (n, tr, w))))
     = filter is_fetch tr @ chunk_fetches interval token chunks \<and>
   filter is_store (fst (snd (chunks_loop client store interval symbol token chunks (n, tr, w))))
     = filter is_store tr @ chunk_stores client interval symbol token chunks"
proof (induction chunks arbitrary: n tr w)
  case Nil
  show ?case by (simp add: chunk_fetches_def chunk_stores_def)
next
  case (Cons chunk chunks)
  obtain chunkFrom chunkTo where chunk: "chunk = (chunkFrom, chunkTo)" by (cases chunk)
  show ?case
  proof (cases "GetHistoricalData client token interval chunkFrom chunkTo")
    case (Inl err)
    then show ?thesis
      using Cons.IH [of n "tr @ [FetchCall token interval chunkFrom chunkTo]" w]
      by (simp add: chunk chunk_fetches_def chunk_stores_def is_fetch_def is_store_def)
  next
    case (Inr candles)
    show ?thesis
    proof (cases "candles = []")
      case True
      with Inr show ?thesis
        using Cons.IH [of n "tr @ [FetchCall token interval chunkFrom chunkTo]" w]
        by (simp add: chunk chunk_fetches_def chunk_stores_def is_fetch_def is_store_def)
    next
      case False
      obtain inserted err w' where
        st: "StoreCandles store symbol candles w = ((inserted, err), w')"
        by (metis surj_pair)
      let ?tr = "tr @ [FetchCall token interval chunkFrom chunkTo, StoreCall symbol candles]"
      show ?thesis
      proof (cases err)
        case None
        with Inr False st show ?thesis
          using Cons.IH [of "n + inserted" ?tr w']
          by (simp add: chunk chunk_fetches_def chunk_stores_def is_fetch_def is_store_def)
      next
        case (Some e)
        with Inr False st show ?thesis
          using Cons.IH [of n ?tr w']
          by (simp add: chunk chunk_fetches_def chunk_stores_def is_fetch_def is_store_def)
      qed
    qed
  qed
qed

lemma instruments_loop_trace:
  "filter is_fetch (fst (snd (snd
      (instruments_loop conf tokenMap client store from to symbols (p, tc, tr, w)))))
     = filter is_fetch tr @ concat (map (\<lambda>symbol.
          case tokenMap symbol of
            None \<Rightarrow> []
          | Some token \<Rightarrow> chunk_fetches (Interval conf) token
              (GenerateDateChunks from to (Interval conf))) symbols) \<and>
   filter is_store (fst (snd (snd
      (instruments_loop conf tokenMap client store from to symbols (p, tc, tr, w)))))
     = filter is_store tr @ concat (map (\<lambda>symbol.
          case tokenMap symbol of
            None \<Rightarrow> []
          | Some token \<Rightarrow> chunk_stores client (Interval conf) symbol token
              (GenerateDateChunks from to (Interval conf))) symbols) \<and>
   fst (instruments_loop conf tokenMap client store from to symbols (p, tc, tr, w))
     = p + length (filter (\<lambda>symbol. tokenMap symbol \<noteq> None) symbols)"
proof (induction symbols arbitrary: p tc tr w)
  case Nil
  show ?case by simp
next
  case (Cons symbol symbols)
  show ?case
  proof (cases "tokenMap symbol")
    case None
    then show ?thesis using Cons.IH [of p tc tr w] by simp
  next
    case (Some token)
    let ?chunks = "GenerateDateChunks from to (Interval conf)"
    obtain n' tr' w' where
      cl: "chunks_loop client store (Interval conf) symbol token ?chunks (0, tr, w) = (n', tr', w')"
      by (metis surj_pair)
    from chunks_loop_trace [of client store "Interval conf" symbol token ?chunks 0 tr w] cl
    have tr': "filter is_fetch tr' = filter is_fetch tr @ chunk_fetches (Interval conf) token ?chunks"
      "filter is_store tr' = filter is_store tr
          @ chunk_stores client (Interval conf) symbol token ?chunks"
      by simp_all
    from Some cl show ?thesis
      using Cons.IH [of "p + 1" "tc + n'" tr' w'] by (simp add: tr')
  qed
qed

text \<open>
  Claim C4.  Whatever the fetches return, \<open>runFetchingLoop\<close> fetches every chunk of
  every instrument that has a token, in order, and counts each such instrument as
  processed; it calls \<open>StoreCandles\<close> exactly for the chunks whose fetch succeeded with
  at least one candle.  A chunk whose fetch fails or returns no candle adds the fetch to
  the calls and nothing else (no \<open>StoreCandles\<close>, the count and the machine unchanged),
  and the loop goes on with the remaining chunks.
\<close>

theorem runFetchingLoop_skips_and_continues:
  "filter is_fetch (fst (snd (snd (runFetchingLoop conf tokenMap client store from to w))))
     = concat (map (\<lambda>symbol.
          case tokenMap symbol of
            None \<Rightarrow> []
          | Some token \<Rightarrow> chunk_fetches (Interval conf) token
              (GenerateDateChunks from to (Interval conf))) (Instruments conf)) \<and>
   filter is_store (fst (snd (snd (runFetchingLoop conf tokenMap client store from to w))))
     = concat (map (\<lambda>symbol.
          case tokenMap symbol of
            None \<Rightarrow> []
          | Some token \<Rightarrow> chunk_stores client (Interval conf) symbol token
              (GenerateDateChunks from to (Interval conf))) (Instruments conf)) \<and>
   fst (runFetchingLoop conf tokenMap client store from to w)
     = length (filter (\<lambda>symbol. tokenMap symbol \<noteq> None) (Instruments conf)) \<and>
   ((GetHistoricalData client token (Interval conf) chunkFrom chunkTo = Inl err \<or>
     GetHistoricalData client token (Interval conf) chunkFrom chunkTo = Inr []) \<longrightarrow>
      chunks_loop client store (Interval conf) symbol token ((chunkFrom, chunkTo) # chunks)
          (totalInserted, trace, w)
        = chunks_loop client store (Interval conf) symbol token chunks
            (totalInserted, trace @ [FetchCall token (Interval conf) chunkFrom chunkTo], w))"
  using instruments_loop_trace [of conf tokenMap client store "from" to "Instruments conf" 0 0 "[]" w]
  by (auto simp: runFetchingLoop_def)

text \<open>
  With an upstream that fails the first chunk and has no candle for the second, each of
  the two known instruments stores the third chunk only, and the unknown instrument
  between them does not stop the run.
\<close>

theorem runFetchingLoop_skips_and_continues_witness:
  "(GetHistoricalData (NewClient flaky_api) 779521 (Interval two_of_three)
       (dateUTC 2024 1 1) (dateUTC 2024 3 1) = Inl ''API error'' \<or>
    GetHistoricalData (NewClient flaky_api) 779521 (Interval two_of_three)
       (dateUTC 2024 1 1) (dateUTC 2024 3 1) = Inr []) \<and>
   chunks_loop (NewClient flaky_api) (JSONStore ''data/json'') (Interval two_of_three)
       ''SBIN'' 779521 [(dateUTC 2024 1 1, dateUTC 2024 3 1)] (0, [], empty_world)
     = (0, [FetchCall 779521 ''minute'' (dateUTC 2024 1 1) (dateUTC 2024 3 1)], empty_world) \<and>
   filter is_store (fst (snd (snd (runFetchingLoop two_of_three two_tokens
       (NewClient flaky_api) (JSONStore ''data/json'')
       (dateUTC 2024 1 1) (dateUTC 2024 6 1) empty_world))))
     = [StoreCall ''SBIN'' [candle (dateUTC 2024 4 30 + 2 * Second) (Finite 100)],
        StoreCall ''INFY'' [candle (dateUTC 2024 4 30 + 2 * Second) (Finite 100)]] \<and>
   fst (runFetchingLoop two_of_three two_tokens
       (NewClient flaky_api) (JSONStore ''data/json'')
       (dateUTC 2024 1 1) (dateUTC 2024 6 1) empty_world) = 2"
proof -
  have c: "GenerateDateChunks (dateUTC 2024 1 1) (dateUTC 2024 6 1) ''minute''
      = [(dateUTC 2024 1 1, dateUTC 2024 3 1),
         (dateUTC 2024 3 1 + Second, dateUTC 2024 4 30 + Second),
         (dateUTC 2024 4 30 + 2 * Second, dateUTC 2024 6 1)]"
    by (simp add: chunker_eval)
  have g2: "GetHistoricalData (NewClient flaky_api) t ''minute''
       (dateUTC 2024 3 1 + Second) (dateUTC 2024 4 30 + Second) = Inr []" for t
    by (simp add: GetHistoricalData_def NewClient_def rate_Wait_def flaky_api_def
        dateUTC_def daysFromCivil_def Hour_def Second_def)
  have g1: "GetHistoricalData (NewClient flaky_api) t ''minute''
       (dateUTC 2024 1 1) (dateUTC 2024 3 1) = Inl ''API error''" for t
    by (simp add: GetHistoricalData_def NewClient_def rate_Wait_def flaky_api_def)
  have g3: "GetHistoricalData (NewClient flaky_api) t ''minute''
       (dateUTC 2024 4 30 + 2 * Second) (dateUTC 2024 6 1)
         = Inr [candle (dateUTC 2024 4 30 + 2 * Second) (Finite 100)]" for t
    by (simp add: GetHistoricalData_def NewClient_def rate_Wait_def flaky_api_def
        dateUTC_def daysFromCivil_def Hour_def Second_def)
  have i: "Interval two_of_three = ''minute''"
    and ins: "Instruments two_of_three = [''SBIN'', ''NOSUCH'', ''INFY'']"
    by (simp_all add: two_of_three_def)
  from runFetchingLoop_skips_and_continues
    [of two_of_three two_tokens "NewClient flaky_api" "JSONStore ''data/json''"
        "dateUTC 2024 1 1" "dateUTC 2024 6 1" empty_world
        779521 "dateUTC 2024 1 1" "dateUTC 2024 3 1" "''API error''"
        "''SBIN''" "[]" 0 "[]"]
  show ?thesis
    by (simp add: i ins c g1 g2 g3 chunk_stores_def two_tokens_def)
qed

end
